theory Spec2Isabelle
  imports Main
begin

section \<open>The calls table\<close>

text \<open>
  The service keeps one SQLite table, created at start-up by
  \<^verbatim>\<open>CREATE TABLE IF NOT EXISTS calls (id INTEGER PRIMARY KEY, from_number TEXT NOT NULL,
  to_number TEXT NOT NULL, start_time TEXT NOT NULL)\<close>.
  A column value is SQL NULL (Python \<^verbatim>\<open>None\<close>) or a text. The columns have TEXT affinity,
  so a JSON number bound to a statement is stored as its decimal text and behaves as that
  string; JSON arrays, objects and fractions are outside the model. A row keeps the column
  \<^verbatim>\<open>id\<close> under the name \<open>call_id\<close>.
\<close>

datatype val = Null | Text string

record call =
  call_id :: int
  from_number :: val
  to_number :: val
  start_time :: val

text \<open>
  The table is a list of rows in the order a scan without \<^verbatim>\<open>ORDER BY\<close> visits them, which
  for a table keyed by \<^verbatim>\<open>INTEGER PRIMARY KEY\<close> is ascending \<^verbatim>\<open>id\<close>.
\<close>

type_synonym store = "call list"

text \<open>
  The exceptions that a statement raises: \<^verbatim>\<open>sqlite3.IntegrityError\<close> for a constraint that is
  violated, and \<^verbatim>\<open>OverflowError\<close> for a Python integer bound to a parameter that does not fit
  the signed 64-bit integer of SQLite. The identifier of a request is a Python integer
  without bound: the route converter \<^verbatim>\<open><int:id>\<close> accepts every string of digits.
\<close>

datatype exn = IntegrityError | OverflowError

definition sqlite_int :: "int \<Rightarrow> bool" where
  "sqlite_int i = (- (2 ^ 63) \<le> i \<and> i < 2 ^ 63)"

text \<open>
  A row inserted without an explicit \<^verbatim>\<open>id\<close> gets 1 in an empty table and otherwise one more
  than the largest \<^verbatim>\<open>id\<close> present, which is that of the last row. This is the rule of
  SQLite as long as the largest \<^verbatim>\<open>id\<close> is below \<open>2 ^ 63 - 1\<close>; a table with a row of that
  \<^verbatim>\<open>id\<close>, where SQLite looks for a free \<^verbatim>\<open>id\<close> at random, is not reached from the empty
  table by fewer than \<open>2 ^ 63 - 1\<close> inserts.
\<close>

definition next_rowid :: "store \<Rightarrow> int" where
  "next_rowid s = (if s = [] then 1 else call_id (last s) + 1)"

text \<open>\<^verbatim>\<open>INSERT INTO calls (from_number, to_number, start_time) VALUES (?, ?, ?)\<close>\<close>

definition insert_call :: "store \<Rightarrow> val \<Rightarrow> val \<Rightarrow> val \<Rightarrow> exn + store" where
  "insert_call s f t st =
     (if f = Null \<or> t = Null \<or> st = Null then Inl IntegrityError
      else Inr (s @ [\<lparr>call_id = next_rowid s, from_number = f, to_number = t,
                       start_time = st\<rparr>]))"

text \<open>\<^verbatim>\<open>SELECT id, from_number, to_number, start_time FROM calls WHERE from_number = ? OR to_number = ?\<close>
  with both parameters bound to the phone; \<^verbatim>\<open>fetchall\<close> gives the rows in scan order.\<close>

definition select_by_phone :: "store \<Rightarrow> string \<Rightarrow> call list" where
  "select_by_phone s ph =
     filter (\<lambda>r. from_number r = Text ph \<or> to_number r = Text ph) s"

text \<open>\<^verbatim>\<open>SELECT * FROM calls WHERE id = ?\<close> with \<^verbatim>\<open>fetchone\<close>: the first row found, or \<^verbatim>\<open>None\<close>.
  Binding an identifier outside the 64-bit range raises \<^verbatim>\<open>OverflowError\<close> before the table is
  read.\<close>

definition select_by_id :: "store \<Rightarrow> int \<Rightarrow> exn + call option" where
  "select_by_id s i =
     (if sqlite_int i then Inr (find (\<lambda>r. call_id r = i) s) else Inl OverflowError)"

text \<open>\<^verbatim>\<open>UPDATE calls SET from_number = ?, to_number = ? WHERE id = ?\<close>. The NOT NULL
  constraints are checked for each row the statement would change; a violation aborts the
  statement and leaves the table as it was.\<close>

definition update_by_id :: "store \<Rightarrow> val \<Rightarrow> val \<Rightarrow> int \<Rightarrow> exn + store" where
  "update_by_id s f t i =
     (if \<not> sqlite_int i then Inl OverflowError
      else if find (\<lambda>r. call_id r = i) s \<noteq> None \<and> (f = Null \<or> t = Null)
      then Inl IntegrityError
      else Inr (map (\<lambda>r. if call_id r = i then r\<lparr>from_number := f, to_number := t\<rparr> else r) s))"

text \<open>\<^verbatim>\<open>DELETE FROM calls WHERE id = ?\<close>\<close>

definition delete_by_id :: "store \<Rightarrow> int \<Rightarrow> exn + store" where
  "delete_by_id s i =
     (if sqlite_int i then Inr (filter (\<lambda>r. call_id r \<noteq> i) s) else Inl OverflowError)"

section \<open>Requests and responses\<close>

text \<open>
  The JSON body of a request is a dictionary; \<^verbatim>\<open>request.json.get(key)\<close> gives \<^verbatim>\<open>None\<close> for a
  key that is absent, the same value as for a key that holds JSON null.
\<close>

type_synonym json_body = "string \<rightharpoonup> val"

definition json_get :: "json_body \<Rightarrow> string \<Rightarrow> val" where
  "json_get body k = (case body k of None \<Rightarrow> Null | Some v \<Rightarrow> v)"

text \<open>The payloads that the handlers pass to \<^verbatim>\<open>jsonify\<close>, one constructor for each.\<close>

datatype payload =
    Success_True
  | Input_Not_Valid
  | Provide_Query_Phone
  | Phone_Not_Valid
  | Success_Data "call list"
  | Call_Not_Found
  | Call_Record_Updated
  | Call_Record_Deleted

text \<open>A response is a payload with its HTTP status; \<^verbatim>\<open>jsonify\<close> alone means 200.\<close>

type_synonym response = "payload \<times> nat"

text \<open>
  A handler that changes the table returns the new table and either its response or the
  exception that left it uncaught.
\<close>

type_synonym outcome = "(exn + response) \<times> store"

section \<open>Python slicing\<close>

text \<open>
  \<^verbatim>\<open>rows[start:stop]\<close>: a negative index counts from the end, and every index is clamped
  to the list; the slice is empty when the clamped start is not before the clamped stop.
\<close>

definition clamp_index :: "int \<Rightarrow> nat \<Rightarrow> nat" where
  "clamp_index i n = (if i < 0 then nat (max (i + int n) 0) else min (nat i) n)"

definition py_slice :: "'a list \<Rightarrow> int \<Rightarrow> int \<Rightarrow> 'a list" where
  "py_slice xs start stop =
     (let lo = clamp_index start (length xs); hi = clamp_index stop (length xs)
      in take (hi - lo) (drop lo xs))"

section \<open>The handlers\<close>

text \<open>\<^verbatim>\<open>POST /initiate-call\<close>. The time stamp \<open>now\<close> stands for
  \<^verbatim>\<open>datetime.now().isoformat()\<close>. The handler catches \<^verbatim>\<open>sqlite3.IntegrityError\<close> only.\<close>

definition initiate_call :: "store \<Rightarrow> json_body \<Rightarrow> string \<Rightarrow> outcome" where
  "initiate_call s body now =
     (let f = json_get body ''from_number'';
          t = json_get body ''to_number'';
          st = Text now
      in case insert_call s f t st of
           Inr s' \<Rightarrow> (Inr (Success_True, 200), s')
         | Inl e \<Rightarrow> if e = IntegrityError then (Inr (Input_Not_Valid, 500), s)
                    else (Inl e, s))"

text \<open>The dictionary built for each row of the page holds the four columns of the row.\<close>

definition to_dict :: "call \<Rightarrow> call" where
  "to_dict row = \<lparr>call_id = call_id row, from_number = from_number row,
                   to_number = to_number row, start_time = start_time row\<rparr>"

text \<open>\<^verbatim>\<open>GET /call-report\<close>. The arguments are the query parameters as
  \<^verbatim>\<open>request.args.get\<close> reads them: the phone is absent or a string, and \<^verbatim>\<open>page\<close> and
  \<^verbatim>\<open>page_size\<close> are absent (or not a number), which gives the default, or an integer.\<close>

definition get_call_report ::
    "store \<Rightarrow> string option \<Rightarrow> int option \<Rightarrow> int option \<Rightarrow> response" where
  "get_call_report s phone_arg page_arg page_size_arg =
     (case phone_arg of
        None \<Rightarrow> (Provide_Query_Phone, 500)
      | Some ph \<Rightarrow>
          if ph = [] then (Provide_Query_Phone, 500)
          else
            (let rows = select_by_phone s ph;
                 page = (case page_arg of None \<Rightarrow> 1 | Some p \<Rightarrow> p);
                 page_size = (case page_size_arg of None \<Rightarrow> 10 | Some k \<Rightarrow> k);
                 start_index = (page - 1) * page_size;
                 end_index = start_index + page_size;
                 paginated_calls = map to_dict (py_slice rows start_index end_index)
             in if paginated_calls = [] then (Phone_Not_Valid, 500)
                else (Success_Data paginated_calls, 200)))"

text \<open>\<^verbatim>\<open>PUT /update-call/<int:id>\<close>. Nothing is caught here.\<close>

definition update_call :: "store \<Rightarrow> int \<Rightarrow> json_body \<Rightarrow> outcome" where
  "update_call s i body =
     (let f = json_get body ''from_number'';
          t = json_get body ''to_number''
      in case select_by_id s i of
           Inl e \<Rightarrow> (Inl e, s)
         | Inr None \<Rightarrow> (Inr (Call_Not_Found, 404), s)
         | Inr (Some row) \<Rightarrow>
             (case update_by_id s f t i of
                Inl e \<Rightarrow> (Inl e, s)
              | Inr s' \<Rightarrow> (Inr (Call_Record_Updated, 200), s')))"

text \<open>\<^verbatim>\<open>DELETE /delete-call/<int:id>\<close>. Nothing is caught here either.\<close>

definition delete_call :: "store \<Rightarrow> int \<Rightarrow> outcome" where
  "delete_call s i =
     (case select_by_id s i of
        Inl e \<Rightarrow> (Inl e, s)
      | Inr None \<Rightarrow> (Inr (Call_Not_Found, 404), s)
      | Inr (Some row) \<Rightarrow>
          (case delete_by_id s i of
             Inl e \<Rightarrow> (Inl e, s)
           | Inr s' \<Rightarrow> (Inr (Call_Record_Deleted, 200), s')))"

section \<open>Invariants of the table\<close>

text \<open>The primary key: the rows are in strictly ascending order of \<^verbatim>\<open>id\<close>, and every
  \<^verbatim>\<open>id\<close> in the table is a signed 64-bit integer.\<close>

definition pk_inv :: "store \<Rightarrow> bool" where
  "pk_inv s =
     (sorted_wrt (<) (map call_id s) \<and> list_all (\<lambda>r. sqlite_int (call_id r)) s)"

text \<open>The NOT NULL constraints of the three other columns.\<close>

definition not_null_inv :: "store \<Rightarrow> bool" where
  "not_null_inv s =
     list_all (\<lambda>r. from_number r \<noteq> Null \<and> to_number r \<noteq> Null \<and> start_time r \<noteq> Null) s"


section \<open>Basic facts\<close>

lemma to_dict_id: "to_dict row = row"
  by (simp add: to_dict_def)

lemma map_to_dict: "map to_dict rows = rows"
  by (induction rows) (simp_all add: to_dict_id)

lemma py_slice_forward:
  assumes "0 \<le> a" and "0 \<le> k"
  shows "py_slice xs a (a + k) = take (nat k) (drop (nat a) xs)"
proof (cases "nat a + nat k \<le> length xs")
  case True
  with assms show ?thesis
    by (simp add: py_slice_def Let_def clamp_index_def nat_add_distrib)
next
  case False
  with assms show ?thesis
    by (simp add: py_slice_def Let_def clamp_index_def nat_add_distrib min_def)
qed

lemma py_slice_stop_0: "py_slice xs a 0 = []"
  by (simp add: py_slice_def clamp_index_def)

lemma py_slice_Nil: "py_slice [] a b = []"
  by (simp add: py_slice_def)

lemma set_py_slice: "set (py_slice xs a b) \<subseteq> set xs"
  unfolding py_slice_def Let_def
  by (meson set_take_subset set_drop_subset subset_trans)

lemma find_id_None: "(find (\<lambda>r. call_id r = i) s = None) = (i \<notin> call_id ` set s)"
  by (auto simp: find_None_iff)

lemma select_by_id_None:
  "sqlite_int i \<Longrightarrow> (select_by_id s i = Inr None) = (i \<notin> call_id ` set s)"
  unfolding select_by_id_def by (simp only: if_True sum.inject find_id_None)

lemma select_by_id_Some:
  "select_by_id s i = Inr (Some r) \<Longrightarrow> r \<in> set s \<and> call_id r = i \<and> sqlite_int i"
  unfolding select_by_id_def by (auto simp: find_Some_iff split: if_splits)

lemma select_by_id_overflow: "\<not> sqlite_int i \<Longrightarrow> select_by_id s i = Inl OverflowError"
  unfolding select_by_id_def by (simp only: if_False)

lemma pk_inv_Nil: "pk_inv []"
  by (simp add: pk_inv_def)

lemma pk_inv_last:
  assumes "pk_inv s" and "r \<in> set s"
  shows "call_id r \<le> call_id (last s)"
  using assms
proof (induction s rule: rev_induct)
  case Nil
  then show ?case by simp
next
  case (snoc x xs)
  then show ?case
    by (auto simp: pk_inv_def sorted_wrt_append)
qed

lemma pk_inv_sqlite_int: "pk_inv s \<Longrightarrow> i \<in> call_id ` set s \<Longrightarrow> sqlite_int i"
  by (auto simp: pk_inv_def list_all_iff)

lemma pk_inv_insert_call:
  assumes "pk_inv s" and "sqlite_int (next_rowid s)" and "insert_call s f t st = Inr s'"
  shows "pk_inv s'"
proof -
  from assms(3) have s': "s' = s @ [\<lparr>call_id = next_rowid s, from_number = f, to_number = t, start_time = st\<rparr>]"
    by (auto simp: insert_call_def split: if_splits)
  have "\<forall>r\<in>set s. call_id r < next_rowid s"
    using pk_inv_last [OF assms(1)] by (fastforce simp: next_rowid_def)
  with assms(1,2) show ?thesis
    by (simp add: s' pk_inv_def sorted_wrt_append)
qed

lemma initiate_call_cases:
  "initiate_call s body now =
     (if json_get body ''from_number'' = Null \<or> json_get body ''to_number'' = Null
      then (Inr (Input_Not_Valid, 500), s)
      else (Inr (Success_True, 200),
            s @ [\<lparr>call_id = next_rowid s, from_number = json_get body ''from_number'',
                   to_number = json_get body ''to_number'', start_time = Text now\<rparr>]))"
  by (simp add: initiate_call_def insert_call_def Let_def)

lemma update_call_cases:
  "update_call s i body =
     (if \<not> sqlite_int i then (Inl OverflowError, s)
      else if i \<notin> call_id ` set s then (Inr (Call_Not_Found, 404), s)
      else if json_get body ''from_number'' = Null \<or> json_get body ''to_number'' = Null
      then (Inl IntegrityError, s)
      else (Inr (Call_Record_Updated, 200),
            map (\<lambda>r. if call_id r = i
                      then r\<lparr>from_number := json_get body ''from_number'',
                             to_number := json_get body ''to_number''\<rparr>
                      else r) s))"
proof (cases "sqlite_int i")
  case False
  then show ?thesis
    by (simp add: update_call_def select_by_id_def Let_def)
next
  case True
  show ?thesis
  proof (cases "find (\<lambda>r. call_id r = i) s")
    case None
    with True show ?thesis
      using find_id_None [of i s]
      by (simp add: update_call_def select_by_id_def Let_def)
  next
    case (Some row)
    with True show ?thesis
      using find_id_None [of i s]
      by (simp add: update_call_def select_by_id_def update_by_id_def Let_def)
  qed
qed

lemma delete_call_cases:
  "delete_call s i =
     (if \<not> sqlite_int i then (Inl OverflowError, s)
      else if i \<notin> call_id ` set s then (Inr (Call_Not_Found, 404), s)
      else (Inr (Call_Record_Deleted, 200), filter (\<lambda>r. call_id r \<noteq> i) s))"
proof (cases "sqlite_int i")
  case False
  then show ?thesis
    by (simp add: delete_call_def select_by_id_def)
next
  case True
  show ?thesis
  proof (cases "find (\<lambda>r. call_id r = i) s")
    case None
    with True show ?thesis
      using find_id_None [of i s]
      by (simp add: delete_call_def select_by_id_def)
  next
    case (Some row)
    with True show ?thesis
      using find_id_None [of i s]
      by (simp add: delete_call_def select_by_id_def delete_by_id_def)
  qed
qed

text \<open>Every handler keeps the primary key, a create as long as the next \<^verbatim>\<open>id\<close> is a 64-bit
  integer.\<close>

lemma pk_inv_initiate_call:
  "pk_inv s \<Longrightarrow> sqlite_int (next_rowid s) \<Longrightarrow> pk_inv (snd (initiate_call s body now))"
  by (auto simp: initiate_call_def Let_def
      split: sum.splits dest: pk_inv_insert_call)

lemma pk_inv_map:
  assumes "\<And>r. call_id (g r) = call_id r"
  shows "pk_inv (map g s) = pk_inv s"
  by (simp add: pk_inv_def comp_def list_all_iff assms)

lemma pk_inv_update_call: "pk_inv s \<Longrightarrow> pk_inv (snd (update_call s i body))"
  by (simp add: update_call_cases pk_inv_map)

lemma pk_inv_delete_call: "pk_inv s \<Longrightarrow> pk_inv (snd (delete_call s i))"
  by (simp add: delete_call_cases pk_inv_def list_all_iff sorted_wrt_map sorted_wrt_filter)

lemma get_call_report_cases:
  assumes "ph \<noteq> []"
  shows "get_call_report s (Some ph) (Some p) (Some k) =
     (if py_slice (select_by_phone s ph) ((p - 1) * k) ((p - 1) * k + k) = [] then (Phone_Not_Valid, 500)
      else (Success_Data (py_slice (select_by_phone s ph) ((p - 1) * k) ((p - 1) * k + k)), 200))"
  using assms by (simp add: get_call_report_def Let_def map_to_dict)

text \<open>A request without phone, or with an empty one, is answered before the table is read.\<close>

lemma get_call_report_no_phone:
  "get_call_report s None pg k = (Provide_Query_Phone, 500)"
  "get_call_report s (Some []) pg k = (Provide_Query_Phone, 500)"
  by (simp_all add: get_call_report_def)


section \<open>Listing by phone\<close>

text \<open>
  C1: the phone of a report is a string that is not empty; a request without phone, or
  with an empty one, is a caller error and is answered as such before the table is read.
  For every table, every phone, every page \<open>p \<ge> 1\<close> and page size \<open>k \<ge> 1\<close>, the report
  is the slice from \<open>(p - 1) * k\<close> of length \<open>k\<close> of the rows whose \<open>from_number\<close> or
  \<open>to_number\<close> is the phone, in the order of the table, and the failure response when that
  slice is empty. The order of the table is the order of insertion: a successful create
  puts its row after all the others.
\<close>

theorem get_call_report_page:
  assumes "ph \<noteq> []" and "1 \<le> p" and "1 \<le> k"
  shows "get_call_report s (Some ph) (Some p) (Some k)
           = (if take (nat k) (drop (nat ((p - 1) * k))
                   (filter (\<lambda>r. from_number r = Text ph \<or> to_number r = Text ph) s)) = []
              then (Phone_Not_Valid, 500)
              else (Success_Data (take (nat k) (drop (nat ((p - 1) * k))
                   (filter (\<lambda>r. from_number r = Text ph \<or> to_number r = Text ph) s))), 200))
         \<and> (initiate_call s body now = (Inr (Success_True, 200), s') \<longrightarrow> (\<exists>r. s' = s @ [r]))"
proof
  from assms have "0 \<le> (p - 1) * k" and "0 \<le> k"
    by simp_all
  then have sl: "py_slice (select_by_phone s ph) ((p - 1) * k) ((p - 1) * k + k)
             = take (nat k) (drop (nat ((p - 1) * k)) (select_by_phone s ph))"
    by (rule py_slice_forward)
  have "get_call_report s (Some ph) (Some p) (Some k)
           = (if take (nat k) (drop (nat ((p - 1) * k)) (select_by_phone s ph)) = []
              then (Phone_Not_Valid, 500)
              else (Success_Data (take (nat k) (drop (nat ((p - 1) * k))
                   (select_by_phone s ph))), 200))"
    by (simp only: get_call_report_cases [OF assms(1)] sl)
  then show "get_call_report s (Some ph) (Some p) (Some k)
           = (if take (nat k) (drop (nat ((p - 1) * k))
                   (filter (\<lambda>r. from_number r = Text ph \<or> to_number r = Text ph) s)) = []
              then (Phone_Not_Valid, 500)
              else (Success_Data (take (nat k) (drop (nat ((p - 1) * k))
                   (filter (\<lambda>r. from_number r = Text ph \<or> to_number r = Text ph) s))), 200))"
    by (simp only: select_by_phone_def)
next
  show "initiate_call s body now = (Inr (Success_True, 200), s') \<longrightarrow> (\<exists>r. s' = s @ [r])"
    by (auto simp: initiate_call_cases split: if_splits)
qed

theorem get_call_report_page_witness:
  "''1000000000'' \<noteq> [] \<and> (1::int) \<le> 2 \<and> (1::int) \<le> 1
   \<and> get_call_report
        [\<lparr>call_id = 1, from_number = Text ''1000000000'', to_number = Text ''2000000000'',
          start_time = Text ''2024-01-01T10:00:00''\<rparr>,
         \<lparr>call_id = 2, from_number = Text ''3000000000'', to_number = Text ''2000000000'',
          start_time = Text ''2024-01-01T10:05:00''\<rparr>,
         \<lparr>call_id = 3, from_number = Text ''2000000000'', to_number = Text ''1000000000'',
          start_time = Text ''2024-01-01T10:10:00''\<rparr>]
        (Some ''1000000000'') (Some 2) (Some 1)
     = (Success_Data
          [\<lparr>call_id = 3, from_number = Text ''2000000000'', to_number = Text ''1000000000'',
            start_time = Text ''2024-01-01T10:10:00''\<rparr>], 200)"
  using get_call_report_page [of "''1000000000''" 2 1
        "[\<lparr>call_id = 1, from_number = Text ''1000000000'', to_number = Text ''2000000000'',
          start_time = Text ''2024-01-01T10:00:00''\<rparr>,
         \<lparr>call_id = 2, from_number = Text ''3000000000'', to_number = Text ''2000000000'',
          start_time = Text ''2024-01-01T10:05:00''\<rparr>,
         \<lparr>call_id = 3, from_number = Text ''2000000000'', to_number = Text ''1000000000'',
          start_time = Text ''2024-01-01T10:10:00''\<rparr>]"]
  by simp

text \<open>
  C10: a page below 1 is not rejected. For every table, every phone that is not the empty
  string and every page size \<open>k \<ge> 1\<close>, page 0 gives the slice from \<open>- k\<close> to 0, which is
  empty, and so the failure response, also when rows match the phone.
\<close>

theorem get_call_report_page_zero:
  assumes "ph \<noteq> []" and "1 \<le> k"
  shows "get_call_report s (Some ph) (Some 0) (Some k) = (Phone_Not_Valid, 500)"
  using assms by (simp add: get_call_report_cases py_slice_stop_0)

theorem get_call_report_page_zero_witness:
  "''1000000000'' \<noteq> [] \<and> (1::int) \<le> 10
   \<and> select_by_phone
        [\<lparr>call_id = 1, from_number = Text ''1000000000'', to_number = Text ''2000000000'',
          start_time = Text ''2024-01-01T10:00:00''\<rparr>] ''1000000000'' \<noteq> []
   \<and> get_call_report
        [\<lparr>call_id = 1, from_number = Text ''1000000000'', to_number = Text ''2000000000'',
          start_time = Text ''2024-01-01T10:00:00''\<rparr>]
        (Some ''1000000000'') (Some 0) (Some 10)
     = (Phone_Not_Valid, 500)"
  using get_call_report_page_zero [of "''1000000000''" 10
        "[\<lparr>call_id = 1, from_number = Text ''1000000000'', to_number = Text ''2000000000'',
          start_time = Text ''2024-01-01T10:00:00''\<rparr>]"]
  by (simp add: select_by_phone_def)

text \<open>
  C9: a request with a phone, which is a string that is not empty, falls on an empty page
  either because no row matches its phone or because its page lies beyond the rows that
  match. For every page size \<open>k \<ge> 1\<close> the two responses are the same payload with the
  same status.
\<close>

theorem empty_page_same_response:
  assumes "1 \<le> k"
    and "ph1 \<noteq> []" and "select_by_phone s1 ph1 = []"
    and "ph2 \<noteq> []" and "select_by_phone s2 ph2 \<noteq> []"
    and "int (length (select_by_phone s2 ph2)) \<le> (p2 - 1) * k"
  shows "get_call_report s1 (Some ph1) pg1 (Some k)
           = get_call_report s2 (Some ph2) (Some p2) (Some k)
         \<and> get_call_report s2 (Some ph2) (Some p2) (Some k) = (Phone_Not_Valid, 500)"
proof -
  have "0 \<le> int (length (select_by_phone s2 ph2))"
    by simp
  with assms(1,6) have "0 \<le> (p2 - 1) * k" and "0 \<le> k"
    by simp_all
  then have "py_slice (select_by_phone s2 ph2) ((p2 - 1) * k) ((p2 - 1) * k + k)
             = take (nat k) (drop (nat ((p2 - 1) * k)) (select_by_phone s2 ph2))"
    by (rule py_slice_forward)
  also from assms(6) have "\<dots> = []"
    by simp
  finally have r2: "get_call_report s2 (Some ph2) (Some p2) (Some k) = (Phone_Not_Valid, 500)"
    using assms(4) by (simp add: get_call_report_cases)
  from assms(2,3) have r1: "get_call_report s1 (Some ph1) pg1 (Some k) = (Phone_Not_Valid, 500)"
    by (simp add: get_call_report_def py_slice_Nil)
  from r1 r2 show ?thesis
    by simp
qed

theorem empty_page_same_response_witness:
  "(1::int) \<le> 1
   \<and> ''5000000000'' \<noteq> [] \<and> ''1000000000'' \<noteq> []
   \<and> select_by_phone
        [\<lparr>call_id = 1, from_number = Text ''1000000000'', to_number = Text ''2000000000'',
          start_time = Text ''2024-01-01T10:00:00''\<rparr>] ''5000000000'' = []
   \<and> select_by_phone
        [\<lparr>call_id = 1, from_number = Text ''1000000000'', to_number = Text ''2000000000'',
          start_time = Text ''2024-01-01T10:00:00''\<rparr>] ''1000000000'' \<noteq> []
   \<and> get_call_report
        [\<lparr>call_id = 1, from_number = Text ''1000000000'', to_number = Text ''2000000000'',
          start_time = Text ''2024-01-01T10:00:00''\<rparr>]
        (Some ''5000000000'') (Some 1) (Some 1)
     = get_call_report
        [\<lparr>call_id = 1, from_number = Text ''1000000000'', to_number = Text ''2000000000'',
          start_time = Text ''2024-01-01T10:00:00''\<rparr>]
        (Some ''1000000000'') (Some 2) (Some 1)
   \<and> get_call_report
        [\<lparr>call_id = 1, from_number = Text ''1000000000'', to_number = Text ''2000000000'',
          start_time = Text ''2024-01-01T10:00:00''\<rparr>]
        (Some ''1000000000'') (Some 2) (Some 1)
     = (Phone_Not_Valid, 500)"
  using empty_page_same_response [of 1 "''5000000000''"
        "[\<lparr>call_id = 1, from_number = Text ''1000000000'', to_number = Text ''2000000000'',
          start_time = Text ''2024-01-01T10:00:00''\<rparr>]" "''1000000000''"
        "[\<lparr>call_id = 1, from_number = Text ''1000000000'', to_number = Text ''2000000000'',
          start_time = Text ''2024-01-01T10:00:00''\<rparr>]" 2 "Some 1"]
  by (simp add: select_by_phone_def)

section \<open>Creating\<close>

text \<open>
  C2: for every table, a create whose \<open>from_number\<close> or \<open>to_number\<close> is null (or absent
  from the body) violates a NOT NULL constraint; the handler catches the error, answers
  with the error payload and status 500, and the table is as before.
\<close>

theorem initiate_call_null_rejected:
  assumes "json_get body ''from_number'' = Null \<or> json_get body ''to_number'' = Null"
  shows "initiate_call s body now = (Inr (Input_Not_Valid, 500), s)"
  using assms by (simp add: initiate_call_cases)

theorem initiate_call_null_rejected_witness:
  "json_get [''to_number'' \<mapsto> Text ''2000000000''] ''from_number'' = Null
   \<and> initiate_call
        [\<lparr>call_id = 1, from_number = Text ''1000000000'', to_number = Text ''2000000000'',
          start_time = Text ''2024-01-01T10:00:00''\<rparr>]
        [''to_number'' \<mapsto> Text ''2000000000''] ''2024-01-01T10:05:00''
     = (Inr (Input_Not_Valid, 500),
        [\<lparr>call_id = 1, from_number = Text ''1000000000'', to_number = Text ''2000000000'',
          start_time = Text ''2024-01-01T10:00:00''\<rparr>])"
  using initiate_call_null_rejected [of "[''to_number'' \<mapsto> Text ''2000000000'']"
        "[\<lparr>call_id = 1, from_number = Text ''1000000000'', to_number = Text ''2000000000'',
          start_time = Text ''2024-01-01T10:00:00''\<rparr>]" "''2024-01-01T10:05:00''"]
  by (simp add: json_get_def)

text \<open>
  C8, as stated, fails: the constraint is NOT NULL, and the empty string is not null. A
  create with two empty strings succeeds and its row is stored.
\<close>

theorem initiate_call_empty_string_counterexample:
  "initiate_call [] [''from_number'' \<mapsto> Text '''', ''to_number'' \<mapsto> Text '''']
       ''2024-01-01T10:00:00''
     = (Inr (Success_True, 200),
        [\<lparr>call_id = 1, from_number = Text '''', to_number = Text '''',
          start_time = Text ''2024-01-01T10:00:00''\<rparr>])"
  by (simp add: initiate_call_cases json_get_def next_rowid_def)

text \<open>
  C8, amended: a create whose \<open>from_number\<close> or \<open>to_number\<close> is null fails and stores
  nothing; every other create, the empty string included, succeeds and stores one row
  that holds the two values of the body, which are not null. No handler brings a null
  into a table that has none, so that the absence of null in the three constrained columns
  is an invariant of every stored row.
\<close>

theorem not_null_invariant:
  "(json_get body ''from_number'' = Null \<or> json_get body ''to_number'' = Null \<longrightarrow>
      initiate_call s body now = (Inr (Input_Not_Valid, 500), s))
   \<and> (json_get body ''from_number'' \<noteq> Null \<and> json_get body ''to_number'' \<noteq> Null \<longrightarrow>
        initiate_call s body now
          = (Inr (Success_True, 200),
             s @ [\<lparr>call_id = next_rowid s, from_number = json_get body ''from_number'',
                    to_number = json_get body ''to_number'', start_time = Text now\<rparr>]))
   \<and> (not_null_inv s \<longrightarrow>
        not_null_inv (snd (initiate_call s body now))
        \<and> not_null_inv (snd (update_call s i ubody))
        \<and> not_null_inv (snd (delete_call s i)))"
proof (intro conjI impI)
  assume "json_get body ''from_number'' = Null \<or> json_get body ''to_number'' = Null"
  then show "initiate_call s body now = (Inr (Input_Not_Valid, 500), s)"
    by (simp add: initiate_call_cases)
next
  assume "json_get body ''from_number'' \<noteq> Null \<and> json_get body ''to_number'' \<noteq> Null"
  then show "initiate_call s body now
          = (Inr (Success_True, 200),
             s @ [\<lparr>call_id = next_rowid s, from_number = json_get body ''from_number'',
                    to_number = json_get body ''to_number'', start_time = Text now\<rparr>])"
    by (simp add: initiate_call_cases)
next
  assume "not_null_inv s"
  then show "not_null_inv (snd (initiate_call s body now))"
    by (simp add: initiate_call_cases not_null_inv_def)
next
  assume "not_null_inv s"
  then show "not_null_inv (snd (update_call s i ubody))"
    by (auto simp: update_call_cases not_null_inv_def list_all_iff)
next
  assume "not_null_inv s"
  then show "not_null_inv (snd (delete_call s i))"
    by (auto simp: delete_call_cases not_null_inv_def list_all_iff)
qed

theorem not_null_invariant_witness:
  "json_get [''from_number'' \<mapsto> Text ''3000000000'', ''to_number'' \<mapsto> Text ''''] ''from_number''
       \<noteq> Null
   \<and> json_get [''from_number'' \<mapsto> Text ''3000000000'', ''to_number'' \<mapsto> Text ''''] ''to_number''
       \<noteq> Null
   \<and> initiate_call
        [\<lparr>call_id = 1, from_number = Text ''1000000000'', to_number = Text ''2000000000'',
          start_time = Text ''2024-01-01T10:00:00''\<rparr>]
        [''from_number'' \<mapsto> Text ''3000000000'', ''to_number'' \<mapsto> Text '''']
        ''2024-01-01T10:05:00''
     = (Inr (Success_True, 200),
        [\<lparr>call_id = 1, from_number = Text ''1000000000'', to_number = Text ''2000000000'',
          start_time = Text ''2024-01-01T10:00:00''\<rparr>,
         \<lparr>call_id = 2, from_number = Text ''3000000000'', to_number = Text '''',
          start_time = Text ''2024-01-01T10:05:00''\<rparr>])
   \<and> json_get [''from_number'' \<mapsto> Text ''3000000000'', ''to_number'' \<mapsto> Null] ''to_number''
       = Null
   \<and> initiate_call
        [\<lparr>call_id = 1, from_number = Text ''1000000000'', to_number = Text ''2000000000'',
          start_time = Text ''2024-01-01T10:00:00''\<rparr>]
        [''from_number'' \<mapsto> Text ''3000000000'', ''to_number'' \<mapsto> Null]
        ''2024-01-01T10:05:00''
     = (Inr (Input_Not_Valid, 500),
        [\<lparr>call_id = 1, from_number = Text ''1000000000'', to_number = Text ''2000000000'',
          start_time = Text ''2024-01-01T10:00:00''\<rparr>])
   \<and> not_null_inv
        [\<lparr>call_id = 1, from_number = Text ''1000000000'', to_number = Text ''2000000000'',
          start_time = Text ''2024-01-01T10:00:00''\<rparr>]
   \<and> not_null_inv (snd (initiate_call
        [\<lparr>call_id = 1, from_number = Text ''1000000000'', to_number = Text ''2000000000'',
          start_time = Text ''2024-01-01T10:00:00''\<rparr>]
        [''from_number'' \<mapsto> Text ''3000000000'', ''to_number'' \<mapsto> Text '''']
        ''2024-01-01T10:05:00''))
   \<and> not_null_inv (snd (update_call
        [\<lparr>call_id = 1, from_number = Text ''1000000000'', to_number = Text ''2000000000'',
          start_time = Text ''2024-01-01T10:00:00''\<rparr>]
        1 [''from_number'' \<mapsto> Text ''3000000000'', ''to_number'' \<mapsto> Null]))
   \<and> not_null_inv (snd (delete_call
        [\<lparr>call_id = 1, from_number = Text ''1000000000'', to_number = Text ''2000000000'',
          start_time = Text ''2024-01-01T10:00:00''\<rparr>] 1))"
  using
    not_null_invariant [where s = "[\<lparr>call_id = 1, from_number = Text ''1000000000'',
          to_number = Text ''2000000000'', start_time = Text ''2024-01-01T10:00:00''\<rparr>]"
      and body = "[''from_number'' \<mapsto> Text ''3000000000'', ''to_number'' \<mapsto> Text '''']"
      and now = "''2024-01-01T10:05:00''" and i = 1
      and ubody = "[''from_number'' \<mapsto> Text ''3000000000'', ''to_number'' \<mapsto> Null]"]
    not_null_invariant [where s = "[\<lparr>call_id = 1, from_number = Text ''1000000000'',
          to_number = Text ''2000000000'', start_time = Text ''2024-01-01T10:00:00''\<rparr>]"
      and body = "[''from_number'' \<mapsto> Text ''3000000000'', ''to_number'' \<mapsto> Null]"
      and now = "''2024-01-01T10:05:00''" and i = 1
      and ubody = "[''from_number'' \<mapsto> Text ''3000000000'', ''to_number'' \<mapsto> Null]"]
  by (simp add: json_get_def next_rowid_def not_null_inv_def)


section \<open>Updating and deleting\<close>

lemma update_call_succeeds:
  assumes "pk_inv s" and "i \<in> call_id ` set s"
    and "json_get body ''from_number'' \<noteq> Null" and "json_get body ''to_number'' \<noteq> Null"
  shows "fst (update_call s i body) = Inr (Call_Record_Updated, 200)"
  using assms pk_inv_sqlite_int [of s i] by (simp add: update_call_cases)

lemma pk_inv_split:
  assumes "pk_inv (xs @ r # ys)"
  shows "\<forall>x \<in> set xs \<union> set ys. call_id x \<noteq> call_id r"
  using assms by (fastforce simp: pk_inv_def sorted_wrt_append)

text \<open>
  C3 fails on the code: \<^verbatim>\<open>update_call\<close> has no \<^verbatim>\<open>try\<close>. An update of an existing row with
  a null \<open>from_number\<close> violates the NOT NULL constraint, and the
  \<^verbatim>\<open>sqlite3.IntegrityError\<close> leaves the handler uncaught, where \<^verbatim>\<open>initiate_call\<close> catches
  the same error for the same body and answers with its error payload.
\<close>

theorem update_call_null_escapes:
  "update_call
     [\<lparr>call_id = 1, from_number = Text ''1000000000'', to_number = Text ''2000000000'',
       start_time = Text ''2024-01-01T10:00:00''\<rparr>]
     1 [''from_number'' \<mapsto> Null, ''to_number'' \<mapsto> Text ''4000000000'']
   = (Inl IntegrityError,
      [\<lparr>call_id = 1, from_number = Text ''1000000000'', to_number = Text ''2000000000'',
        start_time = Text ''2024-01-01T10:00:00''\<rparr>])
   \<and> initiate_call
       [\<lparr>call_id = 1, from_number = Text ''1000000000'', to_number = Text ''2000000000'',
         start_time = Text ''2024-01-01T10:00:00''\<rparr>]
       [''from_number'' \<mapsto> Null, ''to_number'' \<mapsto> Text ''4000000000''] ''2024-01-01T10:05:00''
     = (Inr (Input_Not_Valid, 500),
        [\<lparr>call_id = 1, from_number = Text ''1000000000'', to_number = Text ''2000000000'',
          start_time = Text ''2024-01-01T10:00:00''\<rparr>])"
  by (simp add: update_call_cases initiate_call_cases sqlite_int_def json_get_def)

text \<open>
  C4, as stated, fails: the columns are NOT NULL for every statement, not for inserts
  alone. An update of the existing row 2 whose body has no \<open>to_number\<close> does not succeed,
  and the row keeps its numbers.
\<close>

theorem update_call_null_not_stored_counterexample:
  "update_call
     [\<lparr>call_id = 1, from_number = Text ''1000000000'', to_number = Text ''2000000000'',
       start_time = Text ''2024-01-01T10:00:00''\<rparr>,
      \<lparr>call_id = 2, from_number = Text ''3000000000'', to_number = Text ''2000000000'',
       start_time = Text ''2024-01-01T10:05:00''\<rparr>]
     2 [''from_number'' \<mapsto> Text ''5000000000'']
   = (Inl IntegrityError,
      [\<lparr>call_id = 1, from_number = Text ''1000000000'', to_number = Text ''2000000000'',
        start_time = Text ''2024-01-01T10:00:00''\<rparr>,
       \<lparr>call_id = 2, from_number = Text ''3000000000'', to_number = Text ''2000000000'',
        start_time = Text ''2024-01-01T10:05:00''\<rparr>])"
  by (simp add: update_call_cases sqlite_int_def json_get_def)

text \<open>
  C4, amended: the update handler does not look at its values itself, but the table does.
  For every table and every id of an existing row, an update whose \<open>from_number\<close> or
  \<open>to_number\<close> is null does not succeed and leaves the table as it was: update stores a
  null no more than create does.
\<close>

theorem update_call_null_rejected:
  assumes "i \<in> call_id ` set s"
    and "json_get body ''from_number'' = Null \<or> json_get body ''to_number'' = Null"
  shows "fst (update_call s i body) \<noteq> Inr (Call_Record_Updated, 200)
         \<and> snd (update_call s i body) = s
         \<and> snd (initiate_call s body now) = s"
  using assms by (simp add: update_call_cases initiate_call_cases)

theorem update_call_null_rejected_witness:
  "(1::int) \<in> call_id ` set
        [\<lparr>call_id = 1, from_number = Text ''1000000000'', to_number = Text ''2000000000'',
          start_time = Text ''2024-01-01T10:00:00''\<rparr>]
   \<and> json_get [''from_number'' \<mapsto> Text ''3000000000'', ''to_number'' \<mapsto> Null] ''to_number'' = Null
   \<and> fst (update_call
        [\<lparr>call_id = 1, from_number = Text ''1000000000'', to_number = Text ''2000000000'',
          start_time = Text ''2024-01-01T10:00:00''\<rparr>]
        1 [''from_number'' \<mapsto> Text ''3000000000'', ''to_number'' \<mapsto> Null])
       \<noteq> Inr (Call_Record_Updated, 200)
   \<and> snd (update_call
        [\<lparr>call_id = 1, from_number = Text ''1000000000'', to_number = Text ''2000000000'',
          start_time = Text ''2024-01-01T10:00:00''\<rparr>]
        1 [''from_number'' \<mapsto> Text ''3000000000'', ''to_number'' \<mapsto> Null])
       = [\<lparr>call_id = 1, from_number = Text ''1000000000'', to_number = Text ''2000000000'',
           start_time = Text ''2024-01-01T10:00:00''\<rparr>]"
  using update_call_null_rejected [of 1
        "[\<lparr>call_id = 1, from_number = Text ''1000000000'', to_number = Text ''2000000000'',
          start_time = Text ''2024-01-01T10:00:00''\<rparr>]"
        "[''from_number'' \<mapsto> Text ''3000000000'', ''to_number'' \<mapsto> Null]"]
  by (simp add: json_get_def)

text \<open>
  C5: for every table and every id of an existing row, an update that succeeds leaves
  the table with the same rows at the same places, each with its \<open>call_id\<close> and
  \<open>start_time\<close>; the row of that id has the \<open>from_number\<close> and \<open>to_number\<close> of the body,
  and every other row is as it was. The update succeeds when both values are not null.
\<close>

theorem update_call_frame:
  assumes "i \<in> call_id ` set s"
    and "update_call s i body = (Inr (Call_Record_Updated, 200), s')"
  shows "length s' = length s
         \<and> (\<forall>n < length s.
              call_id (s' ! n) = call_id (s ! n)
              \<and> start_time (s' ! n) = start_time (s ! n)
              \<and> (if call_id (s ! n) = i
                 then from_number (s' ! n) = json_get body ''from_number''
                      \<and> to_number (s' ! n) = json_get body ''to_number''
                 else s' ! n = s ! n))"
proof -
  from assms have s': "s' = map (\<lambda>r. if call_id r = i
                      then r\<lparr>from_number := json_get body ''from_number'',
                             to_number := json_get body ''to_number''\<rparr>
                      else r) s"
    by (auto simp: update_call_cases split: if_splits)
  show ?thesis
    by (simp add: s')
qed

theorem update_call_frame_witness:
  "(2::int) \<in> call_id ` set
        [\<lparr>call_id = 1, from_number = Text ''1000000000'', to_number = Text ''2000000000'',
          start_time = Text ''2024-01-01T10:00:00''\<rparr>,
         \<lparr>call_id = 2, from_number = Text ''3000000000'', to_number = Text ''2000000000'',
          start_time = Text ''2024-01-01T10:05:00''\<rparr>]
   \<and> update_call
        [\<lparr>call_id = 1, from_number = Text ''1000000000'', to_number = Text ''2000000000'',
          start_time = Text ''2024-01-01T10:00:00''\<rparr>,
         \<lparr>call_id = 2, from_number = Text ''3000000000'', to_number = Text ''2000000000'',
          start_time = Text ''2024-01-01T10:05:00''\<rparr>]
        2 [''from_number'' \<mapsto> Text ''3000000000'', ''to_number'' \<mapsto> Text ''4000000000'']
      = (Inr (Call_Record_Updated, 200),
        [\<lparr>call_id = 1, from_number = Text ''1000000000'', to_number = Text ''2000000000'',
          start_time = Text ''2024-01-01T10:00:00''\<rparr>,
         \<lparr>call_id = 2, from_number = Text ''3000000000'', to_number = Text ''4000000000'',
          start_time = Text ''2024-01-01T10:05:00''\<rparr>])
   \<and> length
        [\<lparr>call_id = 1, from_number = Text ''1000000000'', to_number = Text ''2000000000'',
          start_time = Text ''2024-01-01T10:00:00''\<rparr>,
         \<lparr>call_id = 2, from_number = Text ''3000000000'', to_number = Text ''4000000000'',
          start_time = Text ''2024-01-01T10:05:00''\<rparr>] = (2::nat)"
  using update_call_frame [of 2
        "[\<lparr>call_id = 1, from_number = Text ''1000000000'', to_number = Text ''2000000000'',
          start_time = Text ''2024-01-01T10:00:00''\<rparr>,
         \<lparr>call_id = 2, from_number = Text ''3000000000'', to_number = Text ''2000000000'',
          start_time = Text ''2024-01-01T10:05:00''\<rparr>]"
        "[''from_number'' \<mapsto> Text ''3000000000'', ''to_number'' \<mapsto> Text ''4000000000'']"
        "[\<lparr>call_id = 1, from_number = Text ''1000000000'', to_number = Text ''2000000000'',
          start_time = Text ''2024-01-01T10:00:00''\<rparr>,
         \<lparr>call_id = 2, from_number = Text ''3000000000'', to_number = Text ''4000000000'',
          start_time = Text ''2024-01-01T10:05:00''\<rparr>]"]
  by (simp add: update_call_cases sqlite_int_def json_get_def)




text \<open>
  C7: for every table, its ids distinct and 64-bit integers (the primary key), and every
  id of an existing row, delete succeeds and the new table is the old one without that one row,
  the others in their order; whatever the phone, the page and the page size, no report on
  the new table holds a row of that id.
\<close>

theorem delete_call_removes:
  assumes "pk_inv s" and "i \<in> call_id ` set s"
  shows "fst (delete_call s i) = Inr (Call_Record_Deleted, 200)
         \<and> (\<exists>xs r ys. s = xs @ r # ys \<and> call_id r = i \<and> snd (delete_call s i) = xs @ ys)
         \<and> (\<forall>ph pg k rows.
              get_call_report (snd (delete_call s i)) ph pg k = (Success_Data rows, 200)
              \<longrightarrow> i \<notin> call_id ` set rows)"
proof -
  from assms have rng: "sqlite_int i"
    by (rule pk_inv_sqlite_int)
  with assms(2) have d: "delete_call s i
      = (Inr (Call_Record_Deleted, 200), filter (\<lambda>r. call_id r \<noteq> i) s)"
    by (simp add: delete_call_cases)
  show ?thesis
  proof (intro conjI allI impI)
    show "fst (delete_call s i) = Inr (Call_Record_Deleted, 200)"
      by (simp add: d)
  next
    from assms(2) obtain r where "r \<in> set s" and r: "call_id r = i"
      by auto
    then obtain xs ys where s: "s = xs @ r # ys"
      by (auto dest: split_list)
    with assms(1) have "\<forall>x \<in> set xs \<union> set ys. call_id x \<noteq> call_id r"
      by (simp add: pk_inv_split)
    with r have "filter (\<lambda>r. call_id r \<noteq> i) s = xs @ ys"
      by (simp add: s)
    then have "snd (delete_call s i) = xs @ ys"
      by (simp add: d)
    with s r show "\<exists>xs r ys. s = xs @ r # ys \<and> call_id r = i \<and> snd (delete_call s i) = xs @ ys"
      by blast
  next
    fix ph pg k rows
    assume rep: "get_call_report (snd (delete_call s i)) ph pg k = (Success_Data rows, 200)"
    let ?s' = "filter (\<lambda>r. call_id r \<noteq> i) s"
    from d have d': "snd (delete_call s i) = ?s'"
      by simp
    from rep obtain p a b where "rows = py_slice (select_by_phone ?s' p) a b"
      unfolding d' get_call_report_def Let_def map_to_dict
      by (auto split: option.splits if_splits)
    then have "set rows \<subseteq> set ?s'"
      using set_py_slice [of "select_by_phone ?s' p" a b]
      by (auto simp: select_by_phone_def)
    then show "i \<notin> call_id ` set rows"
      by auto
  qed
qed

theorem delete_call_removes_witness:
  "pk_inv
        [\<lparr>call_id = 1, from_number = Text ''1000000000'', to_number = Text ''2000000000'',
          start_time = Text ''2024-01-01T10:00:00''\<rparr>,
         \<lparr>call_id = 2, from_number = Text ''3000000000'', to_number = Text ''2000000000'',
          start_time = Text ''2024-01-01T10:05:00''\<rparr>]
   \<and> (1::int) \<in> call_id ` set
        [\<lparr>call_id = 1, from_number = Text ''1000000000'', to_number = Text ''2000000000'',
          start_time = Text ''2024-01-01T10:00:00''\<rparr>,
         \<lparr>call_id = 2, from_number = Text ''3000000000'', to_number = Text ''2000000000'',
          start_time = Text ''2024-01-01T10:05:00''\<rparr>]
   \<and> fst (delete_call
        [\<lparr>call_id = 1, from_number = Text ''1000000000'', to_number = Text ''2000000000'',
          start_time = Text ''2024-01-01T10:00:00''\<rparr>,
         \<lparr>call_id = 2, from_number = Text ''3000000000'', to_number = Text ''2000000000'',
          start_time = Text ''2024-01-01T10:05:00''\<rparr>] 1) = Inr (Call_Record_Deleted, 200)
   \<and> snd (delete_call
        [\<lparr>call_id = 1, from_number = Text ''1000000000'', to_number = Text ''2000000000'',
          start_time = Text ''2024-01-01T10:00:00''\<rparr>,
         \<lparr>call_id = 2, from_number = Text ''3000000000'', to_number = Text ''2000000000'',
          start_time = Text ''2024-01-01T10:05:00''\<rparr>] 1)
      = [\<lparr>call_id = 2, from_number = Text ''3000000000'', to_number = Text ''2000000000'',
          start_time = Text ''2024-01-01T10:05:00''\<rparr>]"
  using delete_call_removes [of
        "[\<lparr>call_id = 1, from_number = Text ''1000000000'', to_number = Text ''2000000000'',
          start_time = Text ''2024-01-01T10:00:00''\<rparr>,
         \<lparr>call_id = 2, from_number = Text ''3000000000'', to_number = Text ''2000000000'',
          start_time = Text ''2024-01-01T10:05:00''\<rparr>]" 1]
  by (simp add: pk_inv_def sqlite_int_def delete_call_cases)
end
